theory Spec2Isabelle
  imports Complex_Main
begin

section \<open>Numbers, rounding and errors of the Python run time\<close>

text \<open>
  The module \<^verbatim>\<open>calculadora.py\<close> computes with Python numbers. They are modelled as exact
  rationals: this is what the code computes on \<^verbatim>\<open>int\<close> and \<^verbatim>\<open>Fraction\<close> arguments, and
  it is the idealisation of its \<^verbatim>\<open>float\<close> arithmetic. The binary rounding of each
  floating-point operation, overflow to infinity and \<^verbatim>\<open>OverflowError\<close> are outside the model.
  The inputs of the counterexamples below are small integers and dyadic fractions.

  Exceptions are values: a function that can raise returns \<open>error + 'a\<close>.
\<close>

datatype error = ValueError string | ZeroDivisionError

fun is_ValueError :: "error + 'a \<Rightarrow> bool" where
  "is_ValueError (Inl (ValueError m)) = True"
| "is_ValueError (Inl ZeroDivisionError) = False"
| "is_ValueError (Inr v) = False"

text \<open>
  Python's \<^verbatim>\<open>x ** n\<close> for an integer exponent: a negative exponent takes the reciprocal, and
  zero to a negative power raises \<^verbatim>\<open>ZeroDivisionError\<close>.
\<close>

definition py_pow :: "rat \<Rightarrow> int \<Rightarrow> error + rat" where
  "py_pow x n =
     (if 0 \<le> n then Inr (x ^ nat n)
      else if x = 0 then Inl ZeroDivisionError
      else Inr (1 / x ^ nat (- n)))"

text \<open>Python's true division \<^verbatim>\<open>a / b\<close> raises on a zero divisor.\<close>

definition py_truediv :: "rat \<Rightarrow> rat \<Rightarrow> error + rat" where
  "py_truediv a b = (if b = 0 then Inl ZeroDivisionError else Inr (a / b))"

text \<open>
  Python's built-in \<^verbatim>\<open>round(x, ndigits)\<close> rounds to the nearest multiple of
  \<open>10 ^ (- ndigits)\<close> and resolves a tie towards the even multiple (round half to even).
  \<open>ndigits\<close> may be negative.
\<close>

definition round_half_even :: "rat \<Rightarrow> int" where
  "round_half_even y =
     (let f = \<lfloor>y\<rfloor>; d = y - of_int f
      in if d < 1 / 2 then f
         else if 1 / 2 < d then f + 1
         else if even f then f else f + 1)"

definition pow10 :: "int \<Rightarrow> rat" where
  "pow10 p = (if 0 \<le> p then 10 ^ nat p else 1 / 10 ^ nat (- p))"

definition py_round :: "rat \<Rightarrow> int \<Rightarrow> rat" where
  "py_round x ndigits = of_int (round_half_even (x * pow10 ndigits)) / pow10 ndigits"


section \<open>The calculator\<close>

record CalculadoraFinanceira =
  precisao :: int

text \<open>One entry of the amortization table; the source builds a dictionary with these five keys.\<close>


record linha =
  parcela :: int
  valor_parcela :: rat
  juros :: rat
  amortizacao :: rat
  saldo_devedor :: rat

definition juros_compostos :: "CalculadoraFinanceira \<Rightarrow> rat \<Rightarrow> rat \<Rightarrow> int \<Rightarrow> error + rat" where
  "juros_compostos self principal' taxa periodos =
     (case py_pow (1 + taxa) periodos of
        Inl e \<Rightarrow> Inl e
      | Inr w \<Rightarrow> Inr (py_round (principal' * w) (precisao self)))"

text \<open>
  The two guards of \<^verbatim>\<open>calcular_parcela\<close> come first, in the order of the source; the
  second message is written without the accent of the source's text.
\<close>

definition calcular_parcela :: "CalculadoraFinanceira \<Rightarrow> rat \<Rightarrow> rat \<Rightarrow> int \<Rightarrow> error + rat" where
  "calcular_parcela self valor_total taxa_mensal num_parcelas =
     (if taxa_mensal \<le> 0 then Inl (ValueError ''Taxa mensal deve ser maior que zero'')
      else if num_parcelas \<le> 0
        then Inl (ValueError ''Numero de parcelas deve ser maior que zero'')
      else
        (case py_pow (1 + taxa_mensal) num_parcelas of
           Inl e \<Rightarrow> Inl e
         | Inr w1 \<Rightarrow>
            (case py_pow (1 + taxa_mensal) num_parcelas of
               Inl e \<Rightarrow> Inl e
             | Inr w2 \<Rightarrow>
                (case py_truediv (taxa_mensal * w1) (w2 - 1) of
                   Inl e \<Rightarrow> Inl e
                 | Inr q \<Rightarrow> Inr (py_round (valor_total * q) (precisao self))))))"

text \<open>
  The body of the \<^verbatim>\<open>for i in range(1, num_parcelas + 1)\<close> loop, run over the list of the
  remaining indices; \<open>saldo\<close> is the running balance and \<open>tabela\<close> the rows appended so far.
\<close>

fun tabela_loop :: "int \<Rightarrow> rat \<Rightarrow> rat \<Rightarrow> int list \<Rightarrow> rat \<Rightarrow> linha list \<Rightarrow> linha list" where
  "tabela_loop prec parcela_valor taxa_mensal [] saldo tabela = tabela"
| "tabela_loop prec parcela_valor taxa_mensal (i # rest) saldo tabela =
     (let j = saldo * taxa_mensal;
          a = parcela_valor - j;
          saldo' = saldo - a
      in tabela_loop prec parcela_valor taxa_mensal rest saldo'
           (tabela @
            [\<lparr>parcela = i,
              valor_parcela = py_round parcela_valor prec,
              juros = py_round j prec,
              amortizacao = py_round a prec,
              saldo_devedor = py_round (max 0 saldo') prec\<rparr>]))"

definition tabela_amortizacao ::
  "CalculadoraFinanceira \<Rightarrow> rat \<Rightarrow> rat \<Rightarrow> int \<Rightarrow> error + linha list" where
  "tabela_amortizacao self valor_total taxa_mensal num_parcelas =
     (case calcular_parcela self valor_total taxa_mensal num_parcelas of
        Inl e \<Rightarrow> Inl e
      | Inr parcela_valor \<Rightarrow>
          Inr (tabela_loop (precisao self) parcela_valor taxa_mensal
                 [1..num_parcelas] valor_total []))"

definition roi :: "CalculadoraFinanceira \<Rightarrow> rat \<Rightarrow> rat \<Rightarrow> error + rat" where
  "roi self investimento_inicial retorno_final =
     (case py_truediv (retorno_final - investimento_inicial) investimento_inicial of
        Inl e \<Rightarrow> Inl e
      | Inr q \<Rightarrow> Inr (py_round (q * 100) (precisao self)))"

section \<open>Cumulative inflation\<close>


section \<open>The amortization schedule as the specification words it\<close>





section \<open>Validation\<close>

lemma pow_gt_one:
  fixes t :: rat
  assumes "0 < t" and "0 < n"
  shows "1 < (1 + t) ^ nat n"
proof -
  from assms have "1 < 1 + t" and "0 < nat n" by simp_all
  then show ?thesis by (rule one_less_power)
qed

lemma calcular_parcela_valid:
  assumes "0 < t" and "0 < n"
  shows "calcular_parcela self v t n =
           Inr (py_round (v * (t * (1 + t) ^ nat n / ((1 + t) ^ nat n - 1))) (precisao self))"
proof -
  from pow_gt_one [OF assms] have "(1 + t) ^ nat n - 1 \<noteq> 0" by simp
  with assms show ?thesis
    by (simp add: calcular_parcela_def py_pow_def py_truediv_def)
qed

lemma calcular_parcela_invalid:
  assumes "t \<le> 0 \<or> n \<le> 0"
  shows "is_ValueError (calcular_parcela self v t n)"
  using assms by (auto simp: calcular_parcela_def)

text \<open>
  C1. \<^verbatim>\<open>calcular_parcela\<close> (installment_amount) raises \<^verbatim>\<open>ValueError\<close> if and only if the
  monthly rate or the number of installments is not positive; a call that raises returns no
  value; and these are the only validation checks of the module: compound interest and ROI
  never raise \<^verbatim>\<open>ValueError\<close>, the amortization table raises it exactly when the installment
  computation it calls does, and cumulative inflation cannot raise at all (its result type
  has no error).
\<close>

theorem C1_validation:
  "(is_ValueError (calcular_parcela self v t n) \<longleftrightarrow> (t \<le> 0 \<or> n \<le> 0))
   \<and> (is_ValueError (calcular_parcela self v t n) \<longrightarrow>
        (\<forall>x. calcular_parcela self v t n \<noteq> Inr x))
   \<and> (is_ValueError (tabela_amortizacao self v t n) \<longleftrightarrow> (t \<le> 0 \<or> n \<le> 0))
   \<and> \<not> is_ValueError (juros_compostos self p r k)
   \<and> \<not> is_ValueError (roi self a b)"
proof (intro conjI)
  show c: "is_ValueError (calcular_parcela self v t n) \<longleftrightarrow> (t \<le> 0 \<or> n \<le> 0)"
  proof (cases "t \<le> 0 \<or> n \<le> 0")
    case True
    then show ?thesis using calcular_parcela_invalid by blast
  next
    case False
    then have "0 < t" "0 < n" by simp_all
    then show ?thesis using False by (simp add: calcular_parcela_valid)
  qed
  show "is_ValueError (calcular_parcela self v t n) \<longrightarrow>
        (\<forall>x. calcular_parcela self v t n \<noteq> Inr x)"
    by auto
  show "is_ValueError (tabela_amortizacao self v t n) \<longleftrightarrow> (t \<le> 0 \<or> n \<le> 0)"
  proof (cases "t \<le> 0 \<or> n \<le> 0")
    case True
    then show ?thesis
      by (auto simp: tabela_amortizacao_def calcular_parcela_def)
  next
    case False
    then have "0 < t" "0 < n" by simp_all
    then show ?thesis using False
      by (simp add: tabela_amortizacao_def calcular_parcela_valid)
  qed
  show "\<not> is_ValueError (juros_compostos self p r k)"
    by (simp add: juros_compostos_def py_pow_def)
  show "\<not> is_ValueError (roi self a b)"
    by (simp add: roi_def py_truediv_def)
qed

theorem C1_validation_witness:
  "is_ValueError (calcular_parcela \<lparr>precisao = 2\<rparr> 1000 0 12)
   \<and> is_ValueError (calcular_parcela \<lparr>precisao = 2\<rparr> 1000 (1 / 100) 0)
   \<and> \<not> is_ValueError (calcular_parcela \<lparr>precisao = 2\<rparr> 1000 (1 / 100) 12)
   \<and> (\<forall>x. calcular_parcela \<lparr>precisao = 2\<rparr> 1000 0 12 \<noteq> Inr x)"
  using C1_validation [of "\<lparr>precisao = 2\<rparr>" 1000 0 12]
        C1_validation [of "\<lparr>precisao = 2\<rparr>" 1000 "1 / 100" 0]
        C1_validation [of "\<lparr>precisao = 2\<rparr>" 1000 "1 / 100" 12]
  by simp

section \<open>Properties of rounding\<close>


lemma round_half_even_of_int [simp]: "round_half_even (of_int k) = k"
  by (simp add: round_half_even_def)



lemma pow10_nonzero [simp]: "pow10 p \<noteq> 0"
  by (simp add: pow10_def)



lemma py_round_idem: "py_round (py_round x p) p = py_round x p"
  by (simp add: py_round_def)


lemma py_round_zero [simp]: "py_round 0 p = 0"
  by (simp add: py_round_def round_half_even_def)

section \<open>The loop of the amortization table\<close>












section \<open>The installment formula\<close>



section \<open>Compound interest\<close>








section \<open>Cumulative inflation and return on investment\<close>





section \<open>The amortization table\<close>






section \<open>The sum of the principal paid and the last balance\<close>




section \<open>The rounding rule of the returned values\<close>







end
